theory Spec2Isabelle
  imports Main "HOL-Library.Sublist"
begin

section \<open>Text\<close>

text \<open>
  Python's \<open>str\<close> is a sequence of code points and \<open>len\<close> counts them. Text is
  modelled as \<^typ>\<open>string\<close>, one \<^typ>\<open>char\<close> per code point, which covers the code
  points below 256 (ASCII and Latin-1). The character classes of \<open>re\<close> and of
  \<open>str.strip\<close>, \<open>str.lower\<close> are written out for that range below.
\<close>

definition in_range :: "char \<Rightarrow> nat \<Rightarrow> nat \<Rightarrow> bool" where
  "in_range c lo hi = (lo \<le> of_char c \<and> of_char c \<le> (hi::nat))"

section \<open>Documents (src/data.py)\<close>

text \<open>
  A LangChain \<open>Document\<close> carries \<open>page_content\<close> and a \<open>metadata\<close> dictionary. The
  values stored in this repository's metadata are strings and integers (\<open>year\<close>).
\<close>

datatype mvalue = MStr string | MInt int

text \<open>
  The dictionary is kept as the list of its items in insertion order (the order
  \<open>json.dumps\<close> prints); \<^const>\<open>map_of\<close> looks a key up.
\<close>

record document =
  page_content :: string
  metadata :: "(string \<times> mvalue) list"

text \<open>\<open>d.get(key, default)\<close> on a dictionary.\<close>

definition dict_get :: "('k \<times> 'v) list \<Rightarrow> 'k \<Rightarrow> 'v \<Rightarrow> 'v" where
  "dict_get m k dflt = (case map_of m k of None \<Rightarrow> dflt | Some v \<Rightarrow> v)"

definition mk_doc :: "string \<Rightarrow> string \<Rightarrow> string \<Rightarrow> string \<Rightarrow> int \<Rightarrow> document" where
  "mk_doc content src sens cat yr =
     \<lparr>page_content = content,
      metadata = [(''source'', MStr src), (''sensitivity'', MStr sens),
                  (''category'', MStr cat), (''year'', MInt yr)]\<rparr>"

definition RAW_FINANCIAL_DATA :: "document list" where
  "RAW_FINANCIAL_DATA =
    [mk_doc ''NVIDIA Q3 Revenue reported at $18.12 Billion, up 206% YoY. Data Center revenue was the primary driver.''
       ''10-Q'' ''public'' ''financials'' 2024,
     mk_doc ''The company announced a stock buyback program of $25 Billion.''
       ''Press Release'' ''public'' ''financials'' 2024,
     mk_doc ''NVIDIA's gaming segment revenue reached $2.86 billion, showing steady consumer demand.''
       ''10-Q'' ''public'' ''financials'' 2024,
     mk_doc ''The company's gross margin improved to 74.0%, up from 70.1% in the previous quarter.''
       ''10-Q'' ''public'' ''financials'' 2024,
     mk_doc ''Product Roadmap: Next-gen Blackwell B200 chip targets Q2 2025 launch. Focus on AI training workloads.''
       ''Product Planning'' ''product'' ''roadmap'' 2025,
     mk_doc ''Feature prioritization for H100 successor includes 2x memory bandwidth and improved power efficiency.''
       ''Product Planning'' ''product'' ''roadmap'' 2025,
     mk_doc ''Customer feedback indicates strong demand for inference-optimized chips in edge computing scenarios.''
       ''Product Research'' ''product'' ''research'' 2024,
     mk_doc ''CONFIDENTIAL: Project 'Blackwell' is facing a 3-month delay due to packaging yield issues at TSMC.''
       ''Internal Memo'' ''insider'' ''operations'' 2025,
     mk_doc ''CONFIDENTIAL: Legal team is preparing for a potential antitrust inquiry regarding the ARM acquisition attempt.''
       ''Legal Brief'' ''insider'' ''legal'' 2023,
     mk_doc ''CONFIDENTIAL: Q4 revenue projection internally revised down by 8% due to supply chain constraints.''
       ''Internal Forecast'' ''insider'' ''financials'' 2024,
     mk_doc ''CONFIDENTIAL: Executive compensation packages under review, potential 15% increase for retention.''
       ''HR Memo'' ''insider'' ''hr'' 2024]"

section \<open>Secure retriever (src/retriever.py)\<close>

text \<open>
  \<open>SecureRetriever.get_allowed_sensitivities\<close>: an \<open>if\<close>/\<open>elif\<close>/\<open>else\<close> chain on the
  role string; the last branch serves \<open>analyst\<close> and every other string.
\<close>

definition get_allowed_sensitivities :: "string \<Rightarrow> string set" where
  "get_allowed_sensitivities user_role =
     (if user_role = ''executive'' then {''public'', ''product'', ''insider''}
      else if user_role = ''product_manager'' then {''public'', ''product''}
      else {''public''})"

text \<open>
  Python's \<open>v in allowed\<close> for a metadata value and a set of strings: an integer is a
  member of no set of strings.
\<close>

fun py_in :: "mvalue \<Rightarrow> string set \<Rightarrow> bool" where
  "py_in (MStr s) A = (s \<in> A)"
| "py_in (MInt i) A = False"

text \<open>
  The slice \<open>xs[:k]\<close>: the first \<open>k\<close> elements for \<open>k \<ge> 0\<close>, all but the last \<open>-k\<close>
  for a negative \<open>k\<close>.
\<close>

definition py_slice_to :: "'a list \<Rightarrow> int \<Rightarrow> 'a list" where
  "py_slice_to xs k =
     (if 0 \<le> k then take (nat k) xs else take (length xs - nat (- k)) xs)"

text \<open>
  The similarity index (FAISS behind \<open>vector_store.similarity_search\<close>) is an external
  collaborator: a function from the query and the requested number of candidates to
  a ranked list of documents, most similar first.
\<close>

type_synonym similarity_search = "string \<Rightarrow> int \<Rightarrow> document list"

definition retrieve :: "similarity_search \<Rightarrow> string \<Rightarrow> string \<Rightarrow> int \<Rightarrow> document list" where
  "retrieve search query user_role k =
     (let allowed = get_allowed_sensitivities user_role;
          all_docs = search query (k * 3);
          filtered_docs =
            filter (\<lambda>doc. py_in (dict_get (metadata doc) ''sensitivity'' (MStr ''public'')) allowed)
              all_docs
      in py_slice_to filtered_docs k)"

text \<open>
  A sample index for concrete evaluations: it ranks the corpus of \<open>data.py\<close> from the
  last ingested document to the first, whatever the query, and returns at most the
  requested number of candidates.
\<close>

definition sample_search :: similarity_search where
  "sample_search query n = take (nat n) (rev RAW_FINANCIAL_DATA)"

section \<open>Character classes of Python text\<close>

text \<open>
  For code points below 256: \<open>\d\<close> is \<open>str.isdecimal\<close> (the ASCII digits), \<open>\s\<close>
  and the characters \<open>str.strip()\<close> removes are \<open>str.isspace\<close> (tab to carriage
  return, the separators 28 to 31, space, NEL and no-break space), and a word
  character (\<open>\w\<close>, used by \<open>\b\<close>) is \<open>str.isalnum\<close> or the underscore.
  \<open>str.lower\<close> maps the upper-case letters of the range to the letter 32 above.
\<close>

definition py_isdecimal :: "char \<Rightarrow> bool" where
  "py_isdecimal c = in_range c 48 57"

definition py_isspace :: "char \<Rightarrow> bool" where
  "py_isspace c =
     (in_range c 9 13 \<or> in_range c 28 32 \<or> of_char c = (133::nat) \<or> of_char c = (160::nat))"

definition ascii_letter :: "char \<Rightarrow> bool" where
  "ascii_letter c = (in_range c 65 90 \<or> in_range c 97 122)"

definition py_isalnum :: "char \<Rightarrow> bool" where
  "py_isalnum c =
     (py_isdecimal c \<or> ascii_letter c
      \<or> of_char c \<in> {170::nat, 178, 179, 181, 185, 186, 188, 189, 190}
      \<or> in_range c 192 214 \<or> in_range c 216 246 \<or> in_range c 248 255)"

definition is_word :: "char \<Rightarrow> bool" where
  "is_word c = (py_isalnum c \<or> c = CHR ''_'')"

definition py_lower_char :: "char \<Rightarrow> char" where
  "py_lower_char c =
     (if in_range c 65 90 \<or> in_range c 192 214 \<or> in_range c 216 222
      then char_of (of_char c + (32::nat)) else c)"

definition py_lower :: "string \<Rightarrow> string" where
  "py_lower s = map py_lower_char s"

definition py_strip :: "string \<Rightarrow> string" where
  "py_strip s = rev (dropWhile py_isspace (rev (dropWhile py_isspace s)))"

text \<open>The substring test \<open>p in s\<close>.\<close>

fun py_contains :: "string \<Rightarrow> string \<Rightarrow> bool" where
  "py_contains p [] = (p = [])"
| "py_contains p (c # cs) = (if prefix p (c # cs) then True else py_contains p cs)"

section \<open>Regular expressions of the PII registry\<close>

text \<open>
  The four patterns of \<open>PII_PATTERNS\<close> are sequences of two kinds of items: the
  assertion \<open>\b\<close>, and a character class repeated between a least and an optional
  greatest number of times (\<open>\d{3}\<close>, \<open>[-\s]?\<close>, \<open>[...]+\<close>, \<open>[...]{2,}\<close>, a literal
  character). \<open>re.search\<close> is used for its truth value only, so the matcher decides
  whether some start position and some choice of repetition counts match; which
  match a backtracking engine finds first plays no role.
\<close>

datatype regex = WordBoundary | Repeat "char \<Rightarrow> bool" nat "nat option"

text \<open>
  \<open>\b\<close> holds between the previous character (none at the start of the text) and
  the rest of the text when exactly one side is a word character.
\<close>

definition at_boundary :: "char option \<Rightarrow> string \<Rightarrow> bool" where
  "at_boundary prev s =
     ((case prev of None \<Rightarrow> False | Some p \<Rightarrow> is_word p)
      \<noteq> (case s of [] \<Rightarrow> False | c # cs \<Rightarrow> is_word c))"

fun match_here :: "regex list \<Rightarrow> char option \<Rightarrow> string \<Rightarrow> bool" where
  "match_here [] prev s = True"
| "match_here (WordBoundary # rs) prev s =
     (if at_boundary prev s then match_here rs prev s else False)"
| "match_here (Repeat cls lo hi # rs) prev s =
     (if lo = 0 \<and> match_here rs prev s then True
      else case s of
             [] \<Rightarrow> False
           | c # cs \<Rightarrow>
               if cls c \<and> hi \<noteq> Some 0
               then match_here (Repeat cls (lo - 1) (map_option (\<lambda>h. h - 1) hi) # rs) (Some c) cs
               else False)"

fun re_search_from :: "regex list \<Rightarrow> char option \<Rightarrow> string \<Rightarrow> bool" where
  "re_search_from rs prev [] = match_here rs prev []"
| "re_search_from rs prev (c # cs) =
     (if match_here rs prev (c # cs) then True else re_search_from rs (Some c) cs)"

definition re_search :: "regex list \<Rightarrow> string \<Rightarrow> bool" where
  "re_search rs s = re_search_from rs None s"

definition lit :: "char \<Rightarrow> regex" where
  "lit ch = Repeat (\<lambda>c. c = ch) 1 (Some 1)"

definition digits :: "nat \<Rightarrow> regex" where
  "digits n = Repeat py_isdecimal n (Some n)"

section \<open>Guardrails (src/guardrails.py)\<close>

text \<open>
  \<^verbatim>\<open>ssn:         \b\d{3}-\d{2}-\d{4}\b\<close>
  \<^verbatim>\<open>credit_card: \b\d{4}[-\s]?\d{4}[-\s]?\d{4}[-\s]?\d{4}\b\<close>
  \<^verbatim>\<open>email:       \b[A-Za-z0-9._%+-]+@[A-Za-z0-9.-]+\.[A-Z|a-z]{2,}\b\<close>
  \<^verbatim>\<open>phone:       \b\d{3}[-.]?\d{3}[-.]?\d{4}\b\<close>
  The dictionary is iterated in insertion order.
\<close>

definition PII_PATTERNS :: "(string \<times> regex list) list" where
  "PII_PATTERNS =
    [(''ssn'',
        [WordBoundary, digits 3, lit CHR ''-'', digits 2, lit CHR ''-'', digits 4, WordBoundary]),
     (''credit_card'',
        [WordBoundary, digits 4, Repeat (\<lambda>c. c = CHR ''-'' \<or> py_isspace c) 0 (Some 1),
         digits 4, Repeat (\<lambda>c. c = CHR ''-'' \<or> py_isspace c) 0 (Some 1),
         digits 4, Repeat (\<lambda>c. c = CHR ''-'' \<or> py_isspace c) 0 (Some 1),
         digits 4, WordBoundary]),
     (''email'',
        [WordBoundary,
         Repeat (\<lambda>c. ascii_letter c \<or> py_isdecimal c \<or> c \<in> set ''._%+-'') 1 None,
         lit CHR ''@'',
         Repeat (\<lambda>c. ascii_letter c \<or> py_isdecimal c \<or> c \<in> set ''.-'') 1 None,
         lit CHR ''.'',
         Repeat (\<lambda>c. ascii_letter c \<or> c = CHR ''|'') 2 None,
         WordBoundary]),
     (''phone'',
        [WordBoundary, digits 3, Repeat (\<lambda>c. c \<in> set ''-.'') 0 (Some 1),
         digits 3, Repeat (\<lambda>c. c \<in> set ''-.'') 0 (Some 1), digits 4, WordBoundary])]"

text \<open>The \<open>for\<close> loop of \<open>check_pii\<close>: the first pattern that matches returns.\<close>

fun check_pii_loop :: "(string \<times> regex list) list \<Rightarrow> string \<Rightarrow> bool \<times> string" where
  "check_pii_loop [] text = (False, [])"
| "check_pii_loop ((pii_type, pattern) # rest) text =
     (if re_search pattern text then (True, pii_type) else check_pii_loop rest text)"

definition check_pii :: "string \<Rightarrow> bool \<times> string" where
  "check_pii text = check_pii_loop PII_PATTERNS text"

definition confidence_phrases :: "string list" where
  "confidence_phrases = [''according to'', ''the data shows'', ''based on the documents'']"

definition guardrail_check :: "string \<Rightarrow> string \<Rightarrow> bool \<times> string" where
  "guardrail_check context response =
     (case check_pii response of
        (has_pii, pii_type) \<Rightarrow>
          if has_pii then (False, ''[BLOCKED: '' @ pii_type @ '' detected in response]'')
          else if py_strip context = [] \<and> 100 < length response
          then (if list_ex (\<lambda>phrase. py_contains phrase (py_lower response)) confidence_phrases
                then (False, ''[BLOCKED: Potential hallucination - no context but confident answer]'')
                else (True, response))
          else (True, response))"

text \<open>A response of 108 characters that opens with a confidence phrase.\<close>

definition confident_sample :: string where
  "confident_sample =
     ''According to the data shows revenue tripled this quarter and margins doubled, so the outlook is very strong.''"

section \<open>Strings of numbers, \<open>join\<close>, \<open>replace\<close>, \<open>split\<close>\<close>

fun py_join :: "string \<Rightarrow> string list \<Rightarrow> string" where
  "py_join sep [] = []"
| "py_join sep [x] = x"
| "py_join sep (x # y # ys) = x @ sep @ py_join sep (y # ys)"

definition dec_digit :: "nat \<Rightarrow> char" where
  "dec_digit n = ''0123456789'' ! n"

function nat_to_dec :: "nat \<Rightarrow> string" where
  "nat_to_dec n =
     (if n < 10 then [dec_digit n] else nat_to_dec (n div 10) @ [dec_digit (n mod 10)])"
  by pat_completeness auto
termination
  by (relation "measure id") auto

declare nat_to_dec.simps [simp del]

text \<open>\<open>str(i)\<close> for an integer.\<close>

definition py_str_int :: "int \<Rightarrow> string" where
  "py_str_int i = (if i < 0 then CHR ''-'' # nat_to_dec (nat (- i)) else nat_to_dec (nat i))"

text \<open>
  \<open>s.replace(old, new)\<close> and \<open>s.split(sep)\<close> for a non-empty \<open>old\<close> and \<open>sep\<close> (the
  source passes the literals \<open>```python\<close> and \<open>```\<close>): occurrences are taken from the
  left and do not overlap.
\<close>

fun py_replace :: "string \<Rightarrow> string \<Rightarrow> string \<Rightarrow> string" where
  "py_replace old new [] = []"
| "py_replace old new (c # cs) =
     (if old \<noteq> [] \<and> prefix old (c # cs)
      then new @ py_replace old new (drop (length old - 1) cs)
      else c # py_replace old new cs)"

fun py_split_from :: "string \<Rightarrow> string \<Rightarrow> string \<Rightarrow> string list" where
  "py_split_from sep acc [] = [rev acc]"
| "py_split_from sep acc (c # cs) =
     (if sep \<noteq> [] \<and> prefix sep (c # cs)
      then rev acc # py_split_from sep [] (drop (length sep - 1) cs)
      else py_split_from sep (c # acc) cs)"

definition py_split :: "string \<Rightarrow> string \<Rightarrow> string list" where
  "py_split s sep = py_split_from sep [] s"

section \<open>\<open>json.dumps\<close>\<close>

text \<open>
  The values \<open>log_access\<close> serialises: strings, integers, booleans, lists and one
  dictionary. \<open>json.dumps\<close> with its defaults (\<open>ensure_ascii\<close>, separators \<open>, \<close> and
  \<open>: \<close>) escapes the quote, the backslash and every character outside the
  printable ASCII range.
\<close>

datatype json = JString string | JInt int | JBool bool | JArray "json list"
  | JObject "(string \<times> json) list"

definition hex_digit :: "nat \<Rightarrow> char" where
  "hex_digit n = ''0123456789abcdef'' ! n"

definition json_escape_char :: "char \<Rightarrow> string" where
  "json_escape_char c =
     (if c = CHR 0x22 then [CHR 0x5C, CHR 0x22]
      else if c = CHR 0x5C then [CHR 0x5C, CHR 0x5C]
      else if c = CHR 0x0A then [CHR 0x5C, CHR ''n'']
      else if c = CHR 0x0D then [CHR 0x5C, CHR ''r'']
      else if c = CHR 0x09 then [CHR 0x5C, CHR ''t'']
      else if c = CHR 0x08 then [CHR 0x5C, CHR ''b'']
      else if c = CHR 0x0C then [CHR 0x5C, CHR ''f'']
      else if of_char c < (32::nat) \<or> (126::nat) < of_char c
        then [CHR 0x5C, CHR ''u'', CHR ''0'', CHR ''0'',
              hex_digit (of_char c div 16), hex_digit (of_char c mod 16)]
      else [c])"

definition json_string :: "string \<Rightarrow> string" where
  "json_string s = [CHR 0x22] @ concat (map json_escape_char s) @ [CHR 0x22]"

fun json_dumps :: "json \<Rightarrow> string" where
  "json_dumps (JString s) = json_string s"
| "json_dumps (JInt i) = py_str_int i"
| "json_dumps (JBool b) = (if b then ''true'' else ''false'')"
| "json_dumps (JArray xs) = ''['' @ py_join '', '' (map json_dumps xs) @ '']''"
| "json_dumps (JObject kvs) =
     ''{'' @ py_join '', '' (map (\<lambda>(k, v). json_string k @ '': '' @ json_dumps v) kvs) @ ''}''"

fun to_json :: "mvalue \<Rightarrow> json" where
  "to_json (MStr s) = JString s"
| "to_json (MInt i) = JInt i"

fun py_str :: "mvalue \<Rightarrow> string" where
  "py_str (MStr s) = s"
| "py_str (MInt i) = py_str_int i"

section \<open>Collaborators and effects\<close>

text \<open>
  The language model, the similarity index, the Python interpreter behind \<open>exec\<close>
  and the clock are external collaborators: parameters of the model. The interpreter
  is given the program text and either raises an \<open>Exception\<close> (its \<open>str\<close> is kept)
  or leaves a local scope, kept as the list of its names with the \<open>str\<close> of their
  values. Every collaborator is taken to return: a call that never comes back, or
  that leaves by an exception the source does not catch, has no run here. \<open>recursion_limit\<close> is the step bound of the graph library (LangGraph, 25
  unless configured); the source configures none of its own.
\<close>

datatype message = HumanMessage string | AIMessage string | SystemMessage string

fun content :: "message \<Rightarrow> string" where
  "content (HumanMessage c) = c"
| "content (AIMessage c) = c"
| "content (SystemMessage c) = c"

fun is_HumanMessage :: "message \<Rightarrow> bool" where
  "is_HumanMessage (HumanMessage c) = True"
| "is_HumanMessage (AIMessage c) = False"
| "is_HumanMessage (SystemMessage c) = False"

datatype exec_outcome = Returned "(string \<times> string) list" | Raised string

record env =
  llm_invoke :: "message list \<Rightarrow> string"
  vector_search :: similarity_search
  py_exec :: "string \<Rightarrow> exec_outcome"
  clock :: "nat \<Rightarrow> string"
  recursion_limit :: nat

text \<open>
  What a request can change or cause: the module-level list \<open>_retrieved_docs\<close>, the
  audit log file (its whole text), and the calls made to the collaborators, in order.
\<close>

datatype event = SearchCalled string int | LlmInvoked "message list" | ExecCalled string

record world =
  retrieved_docs :: "document list"
  audit_file :: string
  calls :: "event list"



section \<open>Audit logging (src/guardrails.py)\<close>

text \<open>
  \<open>log_access\<close> builds the entry, appends \<open>json.dumps(entry)\<close> and a newline to the
  file opened in append mode, and returns the entry. The timestamp is the clock's
  reading at that moment.
\<close>

definition log_access ::
  "env \<Rightarrow> string \<Rightarrow> string \<Rightarrow> document list \<Rightarrow> string \<Rightarrow> world \<Rightarrow> json \<times> world" where
  "log_access e user_role query docs_accessed response w =
     (let log_entry = JObject
            [(''timestamp'', JString (clock e (length (calls w)))),
             (''user_role'', JString user_role),
             (''query'', JString query),
             (''docs_sensitivity'',
                JArray (map (\<lambda>d. to_json (dict_get (metadata d) ''sensitivity'' (MStr ''unknown'')))
                          docs_accessed)),
             (''docs_sources'',
                JArray (map (\<lambda>d. to_json (dict_get (metadata d) ''source'' (MStr ''unknown'')))
                          docs_accessed)),
             (''response_length'', JInt (int (length response))),
             (''guardrail_triggered'', JBool False)]
      in (log_entry, w\<lparr>audit_file := audit_file w @ json_dumps log_entry @ [CHR 0x0A]\<rparr>))"

text \<open>
  Following the specification's words: the fields of the AuditEntry model, with
  \<open>sensitivities_touched\<close> and \<open>sources_touched\<close> as sets.
\<close>

definition AuditEntry_fields :: "string list" where
  "AuditEntry_fields =
     [''timestamp'', ''role'', ''query'', ''sensitivities_touched'', ''sources_touched'',
      ''response_length'', ''guardrail_triggered'']"

text \<open>The keys of a JSON object in the order written, and the value under a key.\<close>

fun json_keys :: "json \<Rightarrow> string list" where
  "json_keys (JObject kvs) = map fst kvs"
| "json_keys j = []"

fun json_field :: "json \<Rightarrow> string \<Rightarrow> json option" where
  "json_field (JObject kvs) k = map_of kvs k"
| "json_field j k = None"

text \<open>A text between two double quotes, for writing down an expected line.\<close>

definition quoted :: "string \<Rightarrow> string" where
  "quoted s = CHR 0x22 # s @ [CHR 0x22]"

section \<open>Calculator tool (src/guardrails.py)\<close>

text \<open>
  \<open>python_calculator\<close> strips the fences and the surrounding whitespace from the
  snippet and hands what is left to \<open>exec\<close>, with empty globals and a local scope
  holding \<open>math\<close>. No other check stands between the snippet and the interpreter.
\<close>

definition clean_code :: "string \<Rightarrow> string" where
  "clean_code code_snippet =
     py_strip (py_replace ''```'' [] (py_replace ''```python'' [] code_snippet))"

definition python_calculator :: "env \<Rightarrow> string \<Rightarrow> world \<Rightarrow> string \<times> world" where
  "python_calculator e code_snippet w =
     (let w' = w\<lparr>calls := calls w @ [ExecCalled (clean_code code_snippet)]\<rparr>
      in case py_exec e (clean_code code_snippet) of
           Raised msg \<Rightarrow> (''Calculation Error: '' @ msg, w')
         | Returned local_scope \<Rightarrow>
             (case map_of local_scope ''result'' of
                Some v \<Rightarrow> (''Calculated Result: '' @ v, w')
              | None \<Rightarrow> (''Error: Please assign your answer to a variable named 'result'.'', w')))"

section \<open>Workflow (src/agent.py)\<close>

text \<open>
  \<open>FinancialState\<close>. The \<open>messages\<close> channel is reduced by \<open>add_messages\<close>: what a
  node returns under \<open>messages\<close> is appended. The key \<open>context\<close> is absent until
  \<open>retrieve_node\<close> has run, which is before any node reads it; it starts empty here.
\<close>

record state =
  messages :: "message list"
  user_role :: string
  "context" :: string
  guardrail_triggered :: "bool option"

datatype error = IndexError | KeyError string | GraphRecursionError

text \<open>
  The f-string of \<open>retrieve_node\<close> reads \<open>d.metadata['sensitivity']\<close> and then
  \<open>d.metadata['source']\<close>: a missing key raises.
\<close>

definition format_source :: "document \<Rightarrow> error + string" where
  "format_source d =
     (case map_of (metadata d) ''sensitivity'' of
        None \<Rightarrow> Inl (KeyError ''sensitivity'')
      | Some sens \<Rightarrow>
          (case map_of (metadata d) ''source'' of
             None \<Rightarrow> Inl (KeyError ''source'')
           | Some src \<Rightarrow>
               Inr (''Source ('' @ py_str sens @ '', '' @ py_str src @ ''): '' @ page_content d)))"

fun format_sources :: "document list \<Rightarrow> error + string list" where
  "format_sources [] = Inr []"
| "format_sources (d # ds) =
     (case format_source d of
        Inl err \<Rightarrow> Inl err
      | Inr x \<Rightarrow> (case format_sources ds of Inl err \<Rightarrow> Inl err | Inr xs \<Rightarrow> Inr (x # xs)))"

definition retrieve_node :: "env \<Rightarrow> state \<Rightarrow> world \<Rightarrow> (error + state) \<times> world" where
  "retrieve_node e s w =
     (case messages s of
        [] \<Rightarrow> (Inl IndexError, w)
      | m # ms \<Rightarrow>
         (let user_query = content (last (messages s));
              docs = retrieve (vector_search e) user_query (user_role s) 3;
              w' = w\<lparr>retrieved_docs := docs,
                      calls := calls w @ [SearchCalled user_query (3 * 3)]\<rparr>
          in (case format_sources docs of
                Inl err \<Rightarrow> (Inl err, w')
              | Inr parts \<Rightarrow> (Inr (s\<lparr>context := py_join [CHR 0x0A, CHR 0x0A] parts\<rparr>), w'))))"

definition tone_of :: "string \<Rightarrow> string" where
  "tone_of role =
     (if role = ''executive''
      then ''Be extremely concise. Use bullet points. Focus on risks and strategic impact.''
      else if role = ''product_manager''
      then ''Focus on product implications. Highlight timelines and feature impacts.''
      else ''Be detailed and thorough. Cite specific documents found.'')"

definition system_prompt_for :: "string \<Rightarrow> string \<Rightarrow> string" where
  "system_prompt_for role ctx =
     ''You are a Financial Insights Assistant.'' @ [CHR 0x0A, CHR 0x0A]
     @ ''USER ROLE: '' @ role @ [CHR 0x0A]
     @ ''INSTRUCTION: '' @ tone_of role @ [CHR 0x0A, CHR 0x0A]
     @ ''RETRIEVED CONTEXT:'' @ [CHR 0x0A]
     @ ctx @ [CHR 0x0A, CHR 0x0A]
     @ ''RULES:'' @ [CHR 0x0A]
     @ ''- Only use information from the provided context'' @ [CHR 0x0A]
     @ ''- If context is empty or irrelevant, say '' @ [CHR 0x22]
     @ ''I don't have access to that information.'' @ [CHR 0x22, CHR 0x0A]
     @ ''- Never make up financial data'' @ [CHR 0x0A]
     @ ''- If the user asks for a CALCULATION (growth, percentages, projections), write Python code to compute it.''
     @ [CHR 0x0A]
     @ ''  Wrap code in ```python blocks and assign the final value to a variable named 'result'.''
     @ [CHR 0x0A]"

definition generate_node :: "env \<Rightarrow> state \<Rightarrow> world \<Rightarrow> (error + state) \<times> world" where
  "generate_node e s w =
     (case messages s of
        [] \<Rightarrow> (Inl IndexError, w)
      | m # ms \<Rightarrow>
         (let last_message = last (messages s);
              system_prompt =
                (if is_HumanMessage last_message
                    \<and> py_contains ''Calculated Result:'' (content last_message)
                 then ''You have the calculated data. Now answer the user's question concisely using the result.''
                 else system_prompt_for (user_role s) (context s));
              prompt_sequence = SystemMessage system_prompt # messages s;
              response = llm_invoke e prompt_sequence;
              w1 = w\<lparr>calls := calls w @ [LlmInvoked prompt_sequence]\<rparr>
          in (case guardrail_check (context s) response of
               (passed, final_response) \<Rightarrow>
                 if \<not> passed
                 then (Inr (s\<lparr>messages := messages s @ [HumanMessage final_response],
                              guardrail_triggered := Some True\<rparr>), w1)
                 else
                   let w2 = (if \<not> py_contains ''```python'' response
                             then snd (log_access e (user_role s) (content last_message)
                                         (retrieved_docs w1) response w1)
                             else w1)
                   in (Inr (s\<lparr>messages := messages s @ [AIMessage response],
                                guardrail_triggered := Some False\<rparr>), w2))))"

text \<open>
  \<open>content.split("```python")[1].split("```")[0]\<close>. Under the test that guards it the
  first split has a second part, and a split always has a first one.
\<close>

definition code_block_of :: "string \<Rightarrow> error + string" where
  "code_block_of c =
     (case py_split c ''```python'' of
        x # y # rest \<Rightarrow>
          (case py_split y ''```'' of z # zs \<Rightarrow> Inr z | [] \<Rightarrow> Inl IndexError)
      | _ \<Rightarrow> Inl IndexError)"

definition tool_node :: "env \<Rightarrow> state \<Rightarrow> world \<Rightarrow> (error + state) \<times> world" where
  "tool_node e s w =
     (case messages s of
        [] \<Rightarrow> (Inl IndexError, w)
      | m # ms \<Rightarrow>
         (let c = content (last (messages s))
          in if py_contains ''```python'' c
             then (case code_block_of c of
                     Inl err \<Rightarrow> (Inl err, w)
                   | Inr code_block \<Rightarrow>
                       (case python_calculator e code_block w of
                          (output, w') \<Rightarrow>
                            (Inr (s\<lparr>messages := messages s @ [HumanMessage output]\<rparr>), w')))
             else (Inr s, w)))"

text \<open>The router and the graph: \<open>retrieve\<close>, \<open>generate\<close>, \<open>tool_executor\<close> and \<open>END\<close>.\<close>

datatype route = Execute_tool | End_route

definition should_continue :: "state \<Rightarrow> error + route" where
  "should_continue s =
     (case messages s of
        [] \<Rightarrow> Inl IndexError
      | m # ms \<Rightarrow>
          if py_contains ''```python'' (content (last (messages s)))
          then Inr Execute_tool else Inr End_route)"

datatype node = Retrieve | Generate | Tool_executor | END

text \<open>
  The compiled graph runs one node per step, from the entry point \<open>retrieve\<close>, along
  \<open>retrieve \<rightarrow> generate\<close>, the conditional edge after \<open>generate\<close> and
  \<open>tool_executor \<rightarrow> generate\<close>, until \<open>END\<close>. The first argument is the number of steps
  the graph library still allows; when none is left before \<open>END\<close> the library raises
  its recursion error. An exception raised by a node ends the run.
\<close>

fun run_graph :: "env \<Rightarrow> nat \<Rightarrow> node \<Rightarrow> state \<Rightarrow> world \<Rightarrow> (error + state) \<times> world" where
  "run_graph e n END s w = (Inr s, w)"
| "run_graph e 0 Retrieve s w = (Inl GraphRecursionError, w)"
| "run_graph e 0 Generate s w = (Inl GraphRecursionError, w)"
| "run_graph e 0 Tool_executor s w = (Inl GraphRecursionError, w)"
| "run_graph e (Suc n) Retrieve s w =
     (case retrieve_node e s w of
        (Inl err, w') \<Rightarrow> (Inl err, w')
      | (Inr s', w') \<Rightarrow> run_graph e n Generate s' w')"
| "run_graph e (Suc n) Generate s w =
     (case generate_node e s w of
        (Inl err, w') \<Rightarrow> (Inl err, w')
      | (Inr s', w') \<Rightarrow>
          (case should_continue s' of
             Inl err \<Rightarrow> (Inl err, w')
           | Inr Execute_tool \<Rightarrow> run_graph e n Tool_executor s' w'
           | Inr End_route \<Rightarrow> run_graph e n END s' w'))"
| "run_graph e (Suc n) Tool_executor s w =
     (case tool_node e s w of
        (Inl err, w') \<Rightarrow> (Inl err, w')
      | (Inr s', w') \<Rightarrow> run_graph e n Generate s' w')"

text \<open>
  The cross mark that opens the invalid-role message is U+274C, outside the range of
  \<^typ>\<open>char\<close>; it stands here as the three bytes of its UTF-8 encoding.
\<close>

definition cross_mark :: string where
  "cross_mark = [CHR 0xE2, CHR 0x9D, CHR 0x8C]"

definition invalid_role_message :: "string \<Rightarrow> string" where
  "invalid_role_message role =
     cross_mark @ '' Invalid role: '' @ role
     @ ''. Use 'analyst', 'product_manager', or 'executive'' @ [CHR 0x27]"

definition ask :: "env \<Rightarrow> string \<Rightarrow> string \<Rightarrow> world \<Rightarrow> (error + string) \<times> world" where
  "ask e question role w =
     (if role \<notin> set [''analyst'', ''product_manager'', ''executive'']
      then (Inr (invalid_role_message role), w)
      else
        let inputs = \<lparr>messages = [HumanMessage question], user_role = role,
                      context = [], guardrail_triggered = None\<rparr>
        in case run_graph e (recursion_limit e) Retrieve inputs w of
             (Inl err, w') \<Rightarrow> (Inl err, w')
           | (Inr result, w') \<Rightarrow>
               (case messages result of
                  [] \<Rightarrow> (Inl IndexError, w')
                | m # ms \<Rightarrow> (Inr (content (last (messages result))), w')))"

section \<open>Sample collaborators for concrete evaluations\<close>


definition sample_exec :: "string \<Rightarrow> exec_outcome" where
  "sample_exec code =
     (if code = ''result = 1''
      then Returned [(''math'', ''<module 'math' (built-in)>''), (''result'', ''1'')]
      else Raised ''invalid syntax'')"


definition plain_env :: env where
  "plain_env =
     \<lparr>llm_invoke = (\<lambda>prompt. ''Revenue was $18 billion''), vector_search = sample_search,
      py_exec = sample_exec, clock = (\<lambda>n. ''2024-01-01T09:30:00.123456''),
      recursion_limit = 25\<rparr>"

definition empty_world :: world where
  "empty_world = \<lparr>retrieved_docs = [], audit_file = [], calls = []\<rparr>"

section \<open>Access invariant\<close>

lemma set_py_slice_to: "set (py_slice_to xs k) \<subseteq> set xs"
  by (auto simp: py_slice_to_def dest: in_set_takeD)

text \<open>
  C1. Whatever the index returns, whatever the role, the query and \<open>k\<close> (negative
  ones included): every document returned by \<open>retrieve\<close> carries a sensitivity label
  that is a string of the role's allowed set. A document without a \<open>sensitivity\<close>
  entry counts as \<open>public\<close>, as the filter reads it.
\<close>

theorem retrieve_access_invariant:
  "d \<in> set (retrieve search query role k) \<Longrightarrow>
   \<exists>l. dict_get (metadata d) ''sensitivity'' (MStr ''public'') = MStr l
       \<and> l \<in> get_allowed_sensitivities role"
proof -
  assume "d \<in> set (retrieve search query role k)"
  then have "d \<in> set (filter
      (\<lambda>doc. py_in (dict_get (metadata doc) ''sensitivity'' (MStr ''public''))
                (get_allowed_sensitivities role))
      (search query (k * 3)))"
    using set_py_slice_to by (fastforce simp: retrieve_def Let_def)
  then have "py_in (dict_get (metadata d) ''sensitivity'' (MStr ''public''))
               (get_allowed_sensitivities role)"
    by simp
  then show ?thesis
    by (cases "dict_get (metadata d) ''sensitivity'' (MStr ''public'')") simp_all
qed

theorem retrieve_access_invariant_witness:
  "RAW_FINANCIAL_DATA ! 2 \<in> set (retrieve sample_search ''What was Q3 revenue?'' ''analyst'' 3)
   \<and> (\<exists>l. dict_get (metadata (RAW_FINANCIAL_DATA ! 2)) ''sensitivity'' (MStr ''public'') = MStr l
       \<and> l \<in> get_allowed_sensitivities ''analyst'')"
  using retrieve_access_invariant
    [of "RAW_FINANCIAL_DATA ! 2" sample_search "''What was Q3 revenue?''" "''analyst''" 3]
  by (simp add: retrieve_def sample_search_def RAW_FINANCIAL_DATA_def mk_doc_def
      dict_get_def get_allowed_sensitivities_def py_slice_to_def)

section \<open>Access policy on unknown roles\<close>

text \<open>
  C2 (as stated in the specification): the access policy fails with an unknown-role
  error for every role outside \<open>analyst\<close>, \<open>product_manager\<close>, \<open>executive\<close> and never
  returns a default set for it. The function has no failing branch: for the role
  \<open>hacker\<close>, outside the closed set, it returns \<open>{public}\<close>, the set of \<open>analyst\<close>.
\<close>

theorem get_allowed_sensitivities_unknown_role_counterexample:
  "''hacker'' \<notin> {''analyst'', ''product_manager'', ''executive''}
   \<and> get_allowed_sensitivities ''hacker'' = {''public''}
   \<and> get_allowed_sensitivities ''hacker'' = get_allowed_sensitivities ''analyst''"
  by (simp add: get_allowed_sensitivities_def)

text \<open>
  C2 (amended): \<open>get_allowed_sensitivities\<close> is total and has no error outcome; every
  role outside \<open>analyst\<close>, \<open>product_manager\<close>, \<open>executive\<close> falls into the final branch
  and receives \<open>{public}\<close>, the set \<open>analyst\<close> receives and the narrowest one: it is
  contained in the set of every role.
\<close>

theorem get_allowed_sensitivities_default:
  "role \<notin> {''analyst'', ''product_manager'', ''executive''} \<Longrightarrow>
   get_allowed_sensitivities role = {''public''}
   \<and> get_allowed_sensitivities role = get_allowed_sensitivities ''analyst''
   \<and> get_allowed_sensitivities role \<subseteq> get_allowed_sensitivities r"
  by (simp add: get_allowed_sensitivities_def)

theorem get_allowed_sensitivities_default_witness:
  "''intern'' \<notin> {''analyst'', ''product_manager'', ''executive''}
   \<and> get_allowed_sensitivities ''intern'' = {''public''}
   \<and> get_allowed_sensitivities ''intern'' = get_allowed_sensitivities ''analyst''
   \<and> get_allowed_sensitivities ''intern'' \<subseteq> get_allowed_sensitivities ''executive''"
proof -
  have h: "''intern'' \<notin> {''analyst'', ''product_manager'', ''executive''}"
    by simp
  from get_allowed_sensitivities_default [OF h, of "''executive''"] h show ?thesis
    by blast
qed

section \<open>Oversample, filter, truncate\<close>

lemma retrieve_nonneg:
  "0 \<le> k \<Longrightarrow>
   retrieve search query role k =
     take (nat k)
       (filter (\<lambda>d. \<exists>l. dict_get (metadata d) ''sensitivity'' (MStr ''public'') = MStr l
                         \<and> l \<in> get_allowed_sensitivities role)
          (search query (k * 3)))"
proof -
  have eq: "(\<lambda>d::document. py_in (dict_get (metadata d) ''sensitivity'' (MStr ''public''))
                  (get_allowed_sensitivities role))
          = (\<lambda>d. \<exists>l. dict_get (metadata d) ''sensitivity'' (MStr ''public'') = MStr l
                         \<and> l \<in> get_allowed_sensitivities role)"
  proof
    fix d :: document
    show "py_in (dict_get (metadata d) ''sensitivity'' (MStr ''public''))
            (get_allowed_sensitivities role)
        = (\<exists>l. dict_get (metadata d) ''sensitivity'' (MStr ''public'') = MStr l
                \<and> l \<in> get_allowed_sensitivities role)"
      by (cases "dict_get (metadata d) ''sensitivity'' (MStr ''public'')") simp_all
  qed
  assume "0 \<le> k"
  then show ?thesis
    by (simp add: retrieve_def Let_def py_slice_to_def eq)
qed

text \<open>
  C3. For a count \<open>k \<ge> 0\<close>, \<open>retrieve\<close> asks the index for \<open>k * 3\<close> candidates, keeps
  those whose label is in the role's allowed set and returns the first \<open>k\<close> of them:
  at most \<open>k\<close> documents, in the order of the candidate list, and the empty list (a
  value, not an error) when no candidate is permitted.
\<close>

theorem retrieve_oversample_filter_truncate:
  "0 \<le> k \<Longrightarrow>
   retrieve search query role k =
     take (nat k)
       (filter (\<lambda>d. \<exists>l. dict_get (metadata d) ''sensitivity'' (MStr ''public'') = MStr l
                         \<and> l \<in> get_allowed_sensitivities role)
          (search query (k * 3)))
   \<and> length (retrieve search query role k) \<le> nat k
   \<and> subseq (retrieve search query role k) (search query (k * 3))
   \<and> ((\<forall>d \<in> set (search query (k * 3)).
          \<not> (\<exists>l. dict_get (metadata d) ''sensitivity'' (MStr ''public'') = MStr l
                  \<and> l \<in> get_allowed_sensitivities role))
        \<longrightarrow> retrieve search query role k = [])"
proof -
  let ?P = "\<lambda>d. \<exists>l. dict_get (metadata d) ''sensitivity'' (MStr ''public'') = MStr l
                     \<and> l \<in> get_allowed_sensitivities role"
  let ?cs = "search query (k * 3)"
  assume k: "0 \<le> k"
  have r: "retrieve search query role k = take (nat k) (filter ?P ?cs)"
    using k by (rule retrieve_nonneg)
  have len: "length (retrieve search query role k) \<le> nat k"
    unfolding r by simp
  have "subseq (take (nat k) (filter ?P ?cs)) (filter ?P ?cs)"
    by (rule prefix_imp_subseq) (rule take_is_prefix)
  moreover have "subseq (filter ?P ?cs) ?cs"
    by (rule subseq_filter_left)
  ultimately have sub: "subseq (retrieve search query role k) ?cs"
    unfolding r by (rule subseq_order.order_trans)
  have emp: "(\<forall>d \<in> set ?cs. \<not> ?P d) \<longrightarrow> retrieve search query role k = []"
  proof
    assume "\<forall>d \<in> set ?cs. \<not> ?P d"
    then have "filter ?P ?cs = []"
      by (simp add: filter_empty_conv)
    then show "retrieve search query role k = []"
      unfolding r by simp
  qed
  show ?thesis by (intro conjI r len sub emp)
qed

theorem retrieve_oversample_filter_truncate_witness:
  "(0::int) \<le> 1
   \<and> list_all (\<lambda>d. \<not> (\<exists>l. dict_get (metadata d) ''sensitivity'' (MStr ''public'') = MStr l
                  \<and> l \<in> get_allowed_sensitivities ''analyst''))
         (sample_search ''Blackwell'' (1 * 3))
   \<and> retrieve sample_search ''Blackwell'' ''analyst'' 1 = []
   \<and> (0::int) \<le> 3
   \<and> retrieve sample_search ''Blackwell'' ''analyst'' 3
       = [RAW_FINANCIAL_DATA ! 3, RAW_FINANCIAL_DATA ! 2]
   \<and> retrieve sample_search ''Blackwell'' ''executive'' 3
       = [RAW_FINANCIAL_DATA ! 10, RAW_FINANCIAL_DATA ! 9, RAW_FINANCIAL_DATA ! 8]"
proof -
  have none: "\<forall>d \<in> set (sample_search ''Blackwell'' (1 * 3)).
          \<not> (\<exists>l. dict_get (metadata d) ''sensitivity'' (MStr ''public'') = MStr l
                  \<and> l \<in> get_allowed_sensitivities ''analyst'')"
    by (simp add: sample_search_def RAW_FINANCIAL_DATA_def mk_doc_def dict_get_def
        get_allowed_sensitivities_def)
  have k1: "(0::int) \<le> 1"
    by simp
  have e1: "retrieve sample_search ''Blackwell'' ''analyst'' 1 = []"
    using retrieve_oversample_filter_truncate
      [where k = 1 and search = sample_search and query = "''Blackwell''"
         and role = "''analyst''", OF k1] none
    by blast
  have e3: "retrieve sample_search ''Blackwell'' ''analyst'' 3
       = [RAW_FINANCIAL_DATA ! 3, RAW_FINANCIAL_DATA ! 2]"
    using retrieve_oversample_filter_truncate
      [of 3 sample_search "''Blackwell''" "''analyst''"]
    by (simp add: sample_search_def RAW_FINANCIAL_DATA_def mk_doc_def dict_get_def
        get_allowed_sensitivities_def)
  have e4: "retrieve sample_search ''Blackwell'' ''executive'' 3
       = [RAW_FINANCIAL_DATA ! 10, RAW_FINANCIAL_DATA ! 9, RAW_FINANCIAL_DATA ! 8]"
    using retrieve_oversample_filter_truncate
      [of 3 sample_search "''Blackwell''" "''executive''"]
    by (simp add: sample_search_def RAW_FINANCIAL_DATA_def mk_doc_def dict_get_def
        get_allowed_sensitivities_def)
  from none have none': "list_all (\<lambda>d. \<not> (\<exists>l. dict_get (metadata d) ''sensitivity'' (MStr ''public'') = MStr l
                  \<and> l \<in> get_allowed_sensitivities ''analyst''))
         (sample_search ''Blackwell'' (1 * 3))"
    by (simp only: list_all_iff)
  have k3: "(0::int) \<le> 3"
    by simp
  show ?thesis
    by (intro conjI k1 none' e1 k3 e3 e4)
qed

section \<open>Guardrail outcomes\<close>

lemma dropWhile_all_iff:
  "(\<forall>x \<in> set (dropWhile P xs). P x) \<longleftrightarrow> (\<forall>x \<in> set xs. P x)"
  by (induction xs) auto

lemma py_strip_empty_iff: "py_strip s = [] \<longleftrightarrow> (\<forall>c \<in> set s. py_isspace c)"
proof -
  have "py_strip s = [] \<longleftrightarrow> (\<forall>c \<in> set (dropWhile py_isspace s). py_isspace c)"
    by (simp add: py_strip_def)
  then show ?thesis
    by (simp only: dropWhile_all_iff)
qed

lemma py_contains_iff: "py_contains p s \<longleftrightarrow> (\<exists>u v. s = u @ p @ v)"
proof (induction s)
  case Nil
  then show ?case by auto
next
  case (Cons c cs)
  show ?case
  proof (cases "prefix p (c # cs)")
    case True
    then obtain v where "c # cs = p @ v"
      by (auto simp: prefix_def)
    then have "c # cs = [] @ p @ v" by simp
    then have "\<exists>u v. c # cs = u @ p @ v" by blast
    with True show ?thesis by simp
  next
    case False
    have "(\<exists>u v. c # cs = u @ p @ v) \<longleftrightarrow> (\<exists>u v. cs = u @ p @ v)"
    proof
      assume "\<exists>u v. c # cs = u @ p @ v"
      then obtain u v where uv: "c # cs = u @ p @ v" by blast
      show "\<exists>u v. cs = u @ p @ v"
      proof (cases u)
        case Nil
        with uv have "prefix p (c # cs)" by (simp add: prefix_def)
        with False show ?thesis by simp
      next
        case (Cons a u')
        with uv have "cs = u' @ p @ v" by simp
        then show ?thesis by blast
      qed
    next
      assume "\<exists>u v. cs = u @ p @ v"
      then obtain u v where "cs = u @ p @ v" by blast
      then have "c # cs = (c # u) @ p @ v" by simp
      then show "\<exists>u v. c # cs = u @ p @ v" by blast
    qed
    with False Cons.IH show ?thesis by simp
  qed
qed

lemma py_contains_lower_iff:
  "py_contains p (py_lower s) \<longleftrightarrow> (\<exists>u t v. s = u @ t @ v \<and> map py_lower_char t = p)"
proof
  assume "py_contains p (py_lower s)"
  then obtain u' v' where "map py_lower_char s = u' @ (p @ v')"
    unfolding py_contains_iff py_lower_def by blast
  then obtain u r where s: "s = u @ r" and r: "p @ v' = map py_lower_char r"
    unfolding map_eq_append_conv by blast
  from r have "map py_lower_char r = p @ v'"
    by (rule sym)
  then obtain t v where "r = t @ v" and "p = map py_lower_char t"
    unfolding map_eq_append_conv by blast
  with s have "s = u @ t @ v \<and> map py_lower_char t = p"
    by simp
  then show "\<exists>u t v. s = u @ t @ v \<and> map py_lower_char t = p"
    by blast
next
  assume "\<exists>u t v. s = u @ t @ v \<and> map py_lower_char t = p"
  then obtain u t v where "s = u @ t @ v" and "map py_lower_char t = p"
    by blast
  then have "py_lower s = map py_lower_char u @ p @ map py_lower_char v"
    by (simp add: py_lower_def)
  then show "py_contains p (py_lower s)"
    unfolding py_contains_iff by blast
qed

lemma check_pii_loop_first:
  "check_pii_loop ps s =
     (case filter (\<lambda>(kind, pat). re_search pat s) ps of
        [] \<Rightarrow> (False, [])
      | (kind, pat) # rest \<Rightarrow> (True, kind))"
  by (induction ps s rule: check_pii_loop.induct) auto

lemma match_here_needs:
  "match_here rs prev s \<Longrightarrow> Repeat cls lo hi \<in> set rs \<Longrightarrow> 0 < lo \<Longrightarrow> \<exists>c \<in> set s. cls c"
proof (induction rs prev s rule: match_here.induct)
  case (1 prev s)
  then show ?case by simp
next
  case (2 rs prev s)
  then show ?case by (simp split: if_splits)
next
  case (3 cls' lo' hi' rs prev s)
  show ?case
  proof (cases "lo' = 0 \<and> match_here rs prev s")
    case True
    with "3.prems" have "Repeat cls lo hi \<in> set rs"
      by auto
    with True "3.IH"(1) "3.prems"(3) show ?thesis
      by blast
  next
    case False
    with "3.prems"(1) obtain c cs where s: "s = c # cs" and c: "cls' c" and hi: "hi' \<noteq> Some 0"
      and m: "match_here (Repeat cls' (lo' - 1) (map_option (\<lambda>h. h - 1) hi') # rs) (Some c) cs"
      by (cases s) (auto split: if_splits)
    show ?thesis
    proof (cases "Repeat cls lo hi = Repeat cls' lo' hi'")
      case True
      with c s show ?thesis by auto
    next
      case False
      with "3.prems"(2) have "Repeat cls lo hi \<in> set (Repeat cls' (lo' - 1) (map_option (\<lambda>h. h - 1) hi') # rs)"
        by auto
      from "3.IH"(2) [OF \<open>\<not> (lo' = 0 \<and> match_here rs prev s)\<close> s _ m this "3.prems"(3)] c hi
      have "\<exists>c \<in> set cs. cls c" by simp
      with s show ?thesis by auto
    qed
  qed
qed

lemma re_search_from_needs:
  "re_search_from rs prev s \<Longrightarrow> Repeat cls lo hi \<in> set rs \<Longrightarrow> 0 < lo \<Longrightarrow> \<exists>c \<in> set s. cls c"
proof (induction s arbitrary: prev)
  case Nil
  then show ?case using match_here_needs by fastforce
next
  case (Cons a s)
  then show ?case
    using match_here_needs [of rs prev "a # s" cls lo hi]
    by (auto split: if_splits)
qed


lemma re_search_needs:
  "re_search rs s \<Longrightarrow> Repeat cls lo hi \<in> set rs \<Longrightarrow> 0 < lo \<Longrightarrow> \<exists>c \<in> set s. cls c"
  unfolding re_search_def by (rule re_search_from_needs)

lemma no_pii_without_digit_or_at:
  assumes clean: "\<forall>c \<in> set s. \<not> py_isdecimal c \<and> c \<noteq> CHR ''@''"
  shows "filter (\<lambda>(kind, pat). re_search pat s) PII_PATTERNS = []"
proof -
  have d: "\<not> re_search rs s" if "digits n \<in> set rs" and "0 < n" for rs n
    using re_search_needs [of rs s py_isdecimal n "Some n"] that clean
    unfolding digits_def by blast
  have a: "\<not> re_search rs s" if "lit CHR ''@'' \<in> set rs" for rs
    using re_search_needs [of rs s "\<lambda>c. c = CHR ''@''" 1 "Some 1"] that clean
    unfolding lit_def by auto
  have "\<not> re_search (snd p) s" if "p \<in> set PII_PATTERNS" for p
  proof -
    from that consider "digits 3 \<in> set (snd p)" | "digits 4 \<in> set (snd p)"
      | "lit CHR ''@'' \<in> set (snd p)"
      unfolding PII_PATTERNS_def by auto
    then show ?thesis
    proof cases
      case 1
      then show ?thesis by (rule d) simp
    next
      case 2
      then show ?thesis by (rule d) simp
    next
      case 3
      then show ?thesis by (rule a)
    qed
  qed
  then show ?thesis
    by (auto simp: filter_empty_conv)
qed

text \<open>
  C4. \<open>guardrail_check\<close> runs two checks, the first block winning. If some pattern
  of the registry (\<open>ssn\<close>, \<open>credit_card\<close>, \<open>email\<close>, \<open>phone\<close>, in this order) matches
  the response, the outcome is a block whose reason names the first kind that
  matches. Otherwise the outcome is the hallucination block exactly when the context
  is empty or whitespace only, the response is longer than 100 characters and some
  stretch of the response, lower-cased, is one of the confidence phrases. Otherwise
  the response itself passes.
\<close>

theorem guardrail_check_cases:
  "guardrail_check C S =
     (case filter (\<lambda>(kind, pat). re_search pat S) PII_PATTERNS of
        (kind, pat) # rest \<Rightarrow> (False, ''[BLOCKED: '' @ kind @ '' detected in response]'')
      | [] \<Rightarrow>
          if (\<forall>c \<in> set C. py_isspace c) \<and> 100 < length S
             \<and> (\<exists>p \<in> set confidence_phrases. \<exists>u t v. S = u @ t @ v \<and> map py_lower_char t = p)
          then (False, ''[BLOCKED: Potential hallucination - no context but confident answer]'')
          else (True, S))
   \<and> map fst PII_PATTERNS = [''ssn'', ''credit_card'', ''email'', ''phone'']"
proof -
  have phrases: "list_ex (\<lambda>phrase. py_contains phrase (py_lower S)) confidence_phrases
      \<longleftrightarrow> (\<exists>p \<in> set confidence_phrases. \<exists>u t v. S = u @ t @ v \<and> map py_lower_char t = p)"
    by (simp only: list_ex_iff py_contains_lower_iff)
  have kinds: "map fst PII_PATTERNS = [''ssn'', ''credit_card'', ''email'', ''phone'']"
    by (simp add: PII_PATTERNS_def)
  have main: "guardrail_check C S =
     (case filter (\<lambda>(kind, pat). re_search pat S) PII_PATTERNS of
        (kind, pat) # rest \<Rightarrow> (False, ''[BLOCKED: '' @ kind @ '' detected in response]'')
      | [] \<Rightarrow>
          if (\<forall>c \<in> set C. py_isspace c) \<and> 100 < length S
             \<and> (\<exists>p \<in> set confidence_phrases. \<exists>u t v. S = u @ t @ v \<and> map py_lower_char t = p)
          then (False, ''[BLOCKED: Potential hallucination - no context but confident answer]'')
          else (True, S))"
    unfolding guardrail_check_def check_pii_def check_pii_loop_first [of PII_PATTERNS S]
      py_strip_empty_iff phrases
    by (cases "filter (\<lambda>(kind, pat). re_search pat S) PII_PATTERNS") auto
  from main kinds show ?thesis by (rule conjI)
qed

theorem guardrail_check_cases_witness:
  "list_all py_isspace [CHR '' '', CHR 0x09]
   \<and> 100 < length confident_sample
   \<and> (\<exists>p \<in> set confidence_phrases. \<exists>u t v.
          confident_sample = u @ t @ v \<and> map py_lower_char t = p)
   \<and> guardrail_check [CHR '' '', CHR 0x09] confident_sample
       = (False, ''[BLOCKED: Potential hallucination - no context but confident answer]'')"
proof -
  have sp: "\<forall>c \<in> set [CHR '' '', CHR 0x09]. py_isspace c"
    by (simp add: py_isspace_def in_range_def)
  have len: "100 < length confident_sample"
    by (simp add: confident_sample_def)
  have cut: "confident_sample = [] @ ''According to''
      @ '' the data shows revenue tripled this quarter and margins doubled, so the outlook is very strong.''"
    by (simp add: confident_sample_def)
  have low: "map py_lower_char ''According to'' = ''according to''"
    by (simp add: py_lower_char_def in_range_def char_of_eq_iff)
  have mem: "''according to'' \<in> set confidence_phrases"
    by (simp add: confidence_phrases_def)
  have "\<exists>u t v. confident_sample = u @ t @ v \<and> map py_lower_char t = ''according to''"
    by (intro exI conjI) (rule cut, rule low)
  with mem have ph: "\<exists>p \<in> set confidence_phrases. \<exists>u t v.
      confident_sample = u @ t @ v \<and> map py_lower_char t = p"
    by (rule bexI [rotated])
  have "\<forall>c \<in> set confident_sample. \<not> py_isdecimal c \<and> c \<noteq> CHR ''@''"
    by (simp add: confident_sample_def py_isdecimal_def in_range_def)
  then have none: "filter (\<lambda>(kind, pat). re_search pat confident_sample) PII_PATTERNS = []"
    by (rule no_pii_without_digit_or_at)
  have cond: "(\<forall>c \<in> set [CHR '' '', CHR 0x09]. py_isspace c) \<and> 100 < length confident_sample
      \<and> (\<exists>p \<in> set confidence_phrases. \<exists>u t v.
            confident_sample = u @ t @ v \<and> map py_lower_char t = p)"
    by (intro conjI sp len ph)
  from guardrail_check_cases [of "[CHR '' '', CHR 0x09]" confident_sample, THEN conjunct1]
  have eq: "guardrail_check [CHR '' '', CHR 0x09] confident_sample =
      (if (\<forall>c \<in> set [CHR '' '', CHR 0x09]. py_isspace c) \<and> 100 < length confident_sample
          \<and> (\<exists>p \<in> set confidence_phrases. \<exists>u t v.
                confident_sample = u @ t @ v \<and> map py_lower_char t = p)
       then (False, ''[BLOCKED: Potential hallucination - no context but confident answer]'')
       else (True, confident_sample))"
    unfolding none by (simp only: list.case)
  have "guardrail_check [CHR '' '', CHR 0x09] confident_sample
       = (False, ''[BLOCKED: Potential hallucination - no context but confident answer]'')"
    by (rule trans [OF eq if_P [OF cond]])
  moreover from sp have "list_all py_isspace [CHR '' '', CHR 0x09]"
    by (simp only: list_all_iff)
  ultimately show ?thesis
    using len ph by (intro conjI)
qed

lemmas regex_eval = PII_PATTERNS_def re_search_def lit_def digits_def at_boundary_def
  is_word_def py_isalnum_def py_isdecimal_def ascii_letter_def py_isspace_def in_range_def

lemma check_pii_card: "check_pii ''Card: 4111-1111-1111-1111'' = (True, ''credit_card'')"
  by (simp add: check_pii_def regex_eval)

lemma check_pii_revenue: "check_pii ''Revenue was $18 billion'' = (False, [])"
  by (simp add: check_pii_def regex_eval)

text \<open>
  C5. Whatever the context: the response \<open>Card: 4111-1111-1111-1111\<close> is blocked
  with the \<open>credit_card\<close> reason, and \<open>Revenue was $18 billion\<close> passes unchanged.
\<close>

theorem guardrail_check_examples:
  "guardrail_check ctx ''Card: 4111-1111-1111-1111''
     = (False, ''[BLOCKED: credit_card detected in response]'')
   \<and> guardrail_check ctx ''Revenue was $18 billion'' = (True, ''Revenue was $18 billion'')"
  by (simp add: guardrail_check_def check_pii_card check_pii_revenue)

section \<open>Unknown roles at the public interface\<close>

text \<open>
  C9. For a role outside \<open>analyst\<close>, \<open>product_manager\<close>, \<open>executive\<close>, \<open>ask\<close> returns
  the invalid-role message as its value (no exception), and the world is the one it
  started from: no call to the index, to the model or to the interpreter, the audit
  log file and the retrieved documents untouched.
\<close>

theorem ask_invalid_role:
  "role \<notin> {''analyst'', ''product_manager'', ''executive''} \<Longrightarrow>
   ask e question role w =
     (Inr (cross_mark @ '' Invalid role: '' @ role
            @ ''. Use 'analyst', 'product_manager', or 'executive'' @ [CHR 0x27]), w)
   \<and> calls (snd (ask e question role w)) = calls w
   \<and> audit_file (snd (ask e question role w)) = audit_file w
   \<and> retrieved_docs (snd (ask e question role w)) = retrieved_docs w"
proof -
  assume "role \<notin> {''analyst'', ''product_manager'', ''executive''}"
  then have "role \<notin> set [''analyst'', ''product_manager'', ''executive'']"
    by simp
  then have "ask e question role w = (Inr (invalid_role_message role), w)"
    unfolding ask_def by (rule if_P)
  then show ?thesis
    by (simp add: invalid_role_message_def)
qed

theorem ask_invalid_role_witness:
  "''hacker'' \<notin> {''analyst'', ''product_manager'', ''executive''}
   \<and> ask plain_env ''test'' ''hacker'' empty_world =
       (Inr (cross_mark @ '' Invalid role: hacker. Use 'analyst', 'product_manager', or 'executive''
              @ [CHR 0x27]), empty_world)
   \<and> calls (snd (ask plain_env ''test'' ''hacker'' empty_world)) = []"
proof -
  have h: "''hacker'' \<notin> {''analyst'', ''product_manager'', ''executive''}"
    by simp
  from ask_invalid_role [OF h, of plain_env "''test''" empty_world] h show ?thesis
    by (simp add: empty_world_def)
qed

section \<open>The calculation loop\<close>








text \<open>
  The first step. \<open>retrieve_node\<close> succeeds when every candidate of the index carries
  the two metadata keys its f-string reads; the corpus of \<open>data.py\<close> does.
\<close>

lemma format_sources_keys:
  "list_all (\<lambda>d. map_of (metadata d) ''sensitivity'' \<noteq> None
                 \<and> map_of (metadata d) ''source'' \<noteq> None) ds
   \<Longrightarrow> \<exists>parts. format_sources ds = Inr parts"
  by (induction ds) (auto simp: format_source_def split: option.splits sum.splits)

lemma retrieve_keys:
  assumes "list_all (\<lambda>d. map_of (metadata d) ''sensitivity'' \<noteq> None
                 \<and> map_of (metadata d) ''source'' \<noteq> None) (search query (k * 3))"
  shows "list_all (\<lambda>d. map_of (metadata d) ''sensitivity'' \<noteq> None
                 \<and> map_of (metadata d) ''source'' \<noteq> None) (retrieve search query role k)"
proof -
  have "set (retrieve search query role k) \<subseteq> set (search query (k * 3))"
    unfolding retrieve_def Let_def using set_py_slice_to by fastforce
  with assms show ?thesis
    unfolding list_all_iff by blast
qed








lemma sample_search_keys:
  "list_all (\<lambda>d. map_of (metadata d) ''sensitivity'' \<noteq> None
                 \<and> map_of (metadata d) ''source'' \<noteq> None) (sample_search query 9)"
  by (simp add: sample_search_def RAW_FINANCIAL_DATA_def mk_doc_def)




section \<open>The persisted audit record\<close>

text \<open>
  No line feed is ever written inside a serialised value: \<open>json.dumps\<close> escapes it
  in strings, and digits, brackets and separators are other characters.
\<close>

lemma newline_dec_digit: "n < 10 \<Longrightarrow> dec_digit n \<noteq> CHR 0x0A"
proof -
  assume "n < 10"
  then have "dec_digit n \<in> set ''0123456789''"
    unfolding dec_digit_def by (intro nth_mem) simp
  then show ?thesis by auto
qed

lemma newline_nat_to_dec: "CHR 0x0A \<notin> set (nat_to_dec n)"
proof (induction n rule: nat_to_dec.induct)
  case (1 n)
  show ?case
  proof (cases "n < 10")
    case True
    then show ?thesis
      using newline_dec_digit [of n] by (subst nat_to_dec.simps) auto
  next
    case False
    have "n mod 10 < 10" by simp
    from newline_dec_digit [OF this] 1 [OF False] False show ?thesis
      by (subst nat_to_dec.simps) auto
  qed
qed

lemma newline_py_str_int: "CHR 0x0A \<notin> set (py_str_int i)"
  by (simp add: py_str_int_def newline_nat_to_dec)

lemma newline_hex_digit: "n < 16 \<Longrightarrow> hex_digit n \<noteq> CHR 0x0A"
proof -
  assume "n < 16"
  then have "hex_digit n \<in> set ''0123456789abcdef''"
    unfolding hex_digit_def by (intro nth_mem) simp
  then show ?thesis by auto
qed

lemma newline_json_escape_char: "CHR 0x0A \<notin> set (json_escape_char c)"
proof -
  have "(of_char c :: nat) < 256" by simp
  then have "(of_char c :: nat) div 16 < 16" by arith
  moreover have "(of_char c :: nat) mod 16 < 16" by simp
  ultimately show ?thesis
    using newline_hex_digit [of "of_char c div 16"] newline_hex_digit [of "of_char c mod 16"]
    by (auto simp: json_escape_char_def)
qed

lemma newline_json_string: "CHR 0x0A \<notin> set (json_string s)"
  by (auto simp: json_string_def newline_json_escape_char)

lemma newline_py_join:
  "CHR 0x0A \<notin> set sep \<Longrightarrow> (\<And>x. x \<in> set xs \<Longrightarrow> CHR 0x0A \<notin> set x)
   \<Longrightarrow> CHR 0x0A \<notin> set (py_join sep xs)"
  by (induction sep xs rule: py_join.induct) auto

lemma newline_json_dumps: "CHR 0x0A \<notin> set (json_dumps j)"
proof (induction j)
  case (JString s)
  show ?case by (simp add: newline_json_string)
next
  case (JInt i)
  show ?case by (simp add: newline_py_str_int)
next
  case (JBool b)
  show ?case by simp
next
  case (JArray xs)
  have "CHR 0x0A \<notin> set (py_join '', '' (map json_dumps xs))"
    by (rule newline_py_join) (use JArray in auto)
  then show ?case by simp
next
  case (JObject kvs)
  have "CHR 0x0A \<notin> set (py_join '', ''
          (map (\<lambda>(k, v). json_string k @ '': '' @ json_dumps v) kvs))"
  proof (rule newline_py_join)
    show "CHR 0x0A \<notin> set '', ''" by simp
  next
    fix x
    assume "x \<in> set (map (\<lambda>(k, v). json_string k @ '': '' @ json_dumps v) kvs)"
    then obtain k v where kv: "(k, v) \<in> set kvs" "x = json_string k @ '': '' @ json_dumps v"
      by auto
    from kv(1) have "CHR 0x0A \<notin> set (json_dumps v)"
      by (rule JObject) simp
    with kv(2) show "CHR 0x0A \<notin> set x"
      by (simp add: newline_json_string)
  qed
  then show ?case by simp
qed

text \<open>What \<open>log_access\<close> builds and what it appends.\<close>

lemma log_access_entry:
  "fst (log_access e role query docs response w) =
     JObject
       [(''timestamp'', JString (clock e (length (calls w)))),
        (''user_role'', JString role),
        (''query'', JString query),
        (''docs_sensitivity'',
           JArray (map (\<lambda>d. to_json (dict_get (metadata d) ''sensitivity'' (MStr ''unknown'')))
                     docs)),
        (''docs_sources'',
           JArray (map (\<lambda>d. to_json (dict_get (metadata d) ''source'' (MStr ''unknown'')))
                     docs)),
        (''response_length'', JInt (int (length response))),
        (''guardrail_triggered'', JBool False)]"
  by (simp add: log_access_def Let_def)

lemma log_access_world:
  "snd (log_access e role query docs response w) =
     w\<lparr>audit_file := audit_file w
          @ json_dumps (fst (log_access e role query docs response w)) @ [CHR 0x0A]\<rparr>"
  by (simp add: log_access_def Let_def)

text \<open>
  C10 (as stated in the specification): every persisted record has exactly the fields
  \<open>timestamp\<close>, \<open>role\<close>, \<open>query\<close>, \<open>sensitivities_touched\<close>, \<open>sources_touched\<close>,
  \<open>response_length\<close>, \<open>guardrail_triggered\<close>, the two \<open>touched\<close> fields being sets. For
  an analyst's query answered from two documents of the \<open>10-Q\<close> filing the record has
  other keys (\<open>user_role\<close>, \<open>docs_sensitivity\<close>, \<open>docs_sources\<close>), and under
  \<open>docs_sources\<close> the list \<open>["10-Q", "10-Q"]\<close>: one entry per document, repeats kept.
\<close>

theorem log_access_fields_counterexample:
  "set (json_keys (fst (log_access plain_env ''analyst'' ''What was Q3 revenue?''
          [RAW_FINANCIAL_DATA ! 0, RAW_FINANCIAL_DATA ! 2] ''Revenue was $18.12 Billion''
          empty_world))) \<noteq> set AuditEntry_fields
   \<and> ''role'' \<notin> set (json_keys (fst (log_access plain_env ''analyst'' ''What was Q3 revenue?''
          [RAW_FINANCIAL_DATA ! 0, RAW_FINANCIAL_DATA ! 2] ''Revenue was $18.12 Billion''
          empty_world)))
   \<and> json_field (fst (log_access plain_env ''analyst'' ''What was Q3 revenue?''
          [RAW_FINANCIAL_DATA ! 0, RAW_FINANCIAL_DATA ! 2] ''Revenue was $18.12 Billion''
          empty_world)) ''sources_touched'' = None
   \<and> json_field (fst (log_access plain_env ''analyst'' ''What was Q3 revenue?''
          [RAW_FINANCIAL_DATA ! 0, RAW_FINANCIAL_DATA ! 2] ''Revenue was $18.12 Billion''
          empty_world)) ''docs_sources'' = Some (JArray [JString ''10-Q'', JString ''10-Q''])"
proof -
  have "''role'' \<in> set AuditEntry_fields"
    by (simp add: AuditEntry_fields_def)
  moreover have "''role'' \<notin> set (json_keys (fst (log_access plain_env ''analyst''
          ''What was Q3 revenue?'' [RAW_FINANCIAL_DATA ! 0, RAW_FINANCIAL_DATA ! 2]
          ''Revenue was $18.12 Billion'' empty_world)))"
    by (simp add: log_access_entry)
  ultimately have "set (json_keys (fst (log_access plain_env ''analyst''
          ''What was Q3 revenue?'' [RAW_FINANCIAL_DATA ! 0, RAW_FINANCIAL_DATA ! 2]
          ''Revenue was $18.12 Billion'' empty_world))) \<noteq> set AuditEntry_fields"
    by metis
  moreover have "dict_get (metadata (RAW_FINANCIAL_DATA ! 0)) ''source'' (MStr ''unknown'')
      = MStr ''10-Q''"
    by (simp add: RAW_FINANCIAL_DATA_def mk_doc_def dict_get_def)
  moreover have "dict_get (metadata (RAW_FINANCIAL_DATA ! 2)) ''source'' (MStr ''unknown'')
      = MStr ''10-Q''"
    by (simp add: RAW_FINANCIAL_DATA_def mk_doc_def dict_get_def)
  ultimately show ?thesis
    by (simp add: log_access_entry)
qed

text \<open>
  C10 (amended): every record persisted by \<open>log_access\<close> is one JSON object on one line
  with the keys \<open>timestamp\<close>, \<open>user_role\<close>, \<open>query\<close>, \<open>docs_sensitivity\<close>,
  \<open>docs_sources\<close>, \<open>response_length\<close>, \<open>guardrail_triggered\<close>, in this order. The
  timestamp is a string, \<open>user_role\<close> and \<open>query\<close> are the arguments,
  \<open>docs_sensitivity\<close> and \<open>docs_sources\<close> are lists with one entry per document
  accessed, in order and with repeats (\<open>unknown\<close> where the metadata has none),
  \<open>response_length\<close> is the length of the response and \<open>guardrail_triggered\<close> is
  \<open>false\<close>. The file grows by exactly the serialised object and a line feed; the
  object opens with a brace, closes with one and holds no line feed.
\<close>

theorem log_access_record:
  "json_keys (fst (log_access e role query docs response w))
     = [''timestamp'', ''user_role'', ''query'', ''docs_sensitivity'', ''docs_sources'',
        ''response_length'', ''guardrail_triggered'']
   \<and> (\<exists>ts. json_field (fst (log_access e role query docs response w)) ''timestamp''
          = Some (JString ts))
   \<and> json_field (fst (log_access e role query docs response w)) ''user_role''
       = Some (JString role)
   \<and> json_field (fst (log_access e role query docs response w)) ''query''
       = Some (JString query)
   \<and> json_field (fst (log_access e role query docs response w)) ''docs_sensitivity''
       = Some (JArray (map (\<lambda>d. to_json (dict_get (metadata d) ''sensitivity'' (MStr ''unknown'')))
                         docs))
   \<and> json_field (fst (log_access e role query docs response w)) ''docs_sources''
       = Some (JArray (map (\<lambda>d. to_json (dict_get (metadata d) ''source'' (MStr ''unknown'')))
                         docs))
   \<and> json_field (fst (log_access e role query docs response w)) ''response_length''
       = Some (JInt (int (length response)))
   \<and> json_field (fst (log_access e role query docs response w)) ''guardrail_triggered''
       = Some (JBool False)
   \<and> audit_file (snd (log_access e role query docs response w))
       = audit_file w @ json_dumps (fst (log_access e role query docs response w)) @ [CHR 0x0A]
   \<and> CHR 0x0A \<notin> set (json_dumps (fst (log_access e role query docs response w)))
   \<and> hd (json_dumps (fst (log_access e role query docs response w))) = CHR ''{''
   \<and> last (json_dumps (fst (log_access e role query docs response w))) = CHR ''}''
   \<and> calls (snd (log_access e role query docs response w)) = calls w
   \<and> retrieved_docs (snd (log_access e role query docs response w)) = retrieved_docs w"
proof -
  have fields: "json_keys (fst (log_access e role query docs response w))
     = [''timestamp'', ''user_role'', ''query'', ''docs_sensitivity'', ''docs_sources'',
        ''response_length'', ''guardrail_triggered'']
   \<and> (\<exists>ts. json_field (fst (log_access e role query docs response w)) ''timestamp''
          = Some (JString ts))
   \<and> json_field (fst (log_access e role query docs response w)) ''user_role''
       = Some (JString role)
   \<and> json_field (fst (log_access e role query docs response w)) ''query''
       = Some (JString query)
   \<and> json_field (fst (log_access e role query docs response w)) ''docs_sensitivity''
       = Some (JArray (map (\<lambda>d. to_json (dict_get (metadata d) ''sensitivity'' (MStr ''unknown'')))
                         docs))
   \<and> json_field (fst (log_access e role query docs response w)) ''docs_sources''
       = Some (JArray (map (\<lambda>d. to_json (dict_get (metadata d) ''source'' (MStr ''unknown'')))
                         docs))
   \<and> json_field (fst (log_access e role query docs response w)) ''response_length''
       = Some (JInt (int (length response)))
   \<and> json_field (fst (log_access e role query docs response w)) ''guardrail_triggered''
       = Some (JBool False)"
    unfolding log_access_entry by simp
  have appended: "audit_file (snd (log_access e role query docs response w))
       = audit_file w @ json_dumps (fst (log_access e role query docs response w)) @ [CHR 0x0A]
     \<and> calls (snd (log_access e role query docs response w)) = calls w
     \<and> retrieved_docs (snd (log_access e role query docs response w)) = retrieved_docs w"
    by (subst (1 2 3) log_access_world) simp
  have line: "CHR 0x0A \<notin> set (json_dumps (fst (log_access e role query docs response w)))"
    by (rule newline_json_dumps)
  have braces: "hd (json_dumps (fst (log_access e role query docs response w))) = CHR ''{''
     \<and> last (json_dumps (fst (log_access e role query docs response w))) = CHR ''}''"
    unfolding log_access_entry by simp
  from fields appended line braces show ?thesis by (intro conjI) (elim conjE, assumption)+
qed

theorem log_access_record_witness:
  "audit_file (snd (log_access plain_env ''executive'' ''Any delays?''
       [RAW_FINANCIAL_DATA ! 7] ''Yes, 3 months'' empty_world))
     = ''{'' @ quoted ''timestamp'' @ '': '' @ quoted ''2024-01-01T09:30:00.123456'' @ '', ''
         @ quoted ''user_role'' @ '': '' @ quoted ''executive'' @ '', ''
         @ quoted ''query'' @ '': '' @ quoted ''Any delays?'' @ '', ''
         @ quoted ''docs_sensitivity'' @ '': ['' @ quoted ''insider'' @ ''], ''
         @ quoted ''docs_sources'' @ '': ['' @ quoted ''Internal Memo'' @ ''], ''
         @ quoted ''response_length'' @ '': 13, ''
         @ quoted ''guardrail_triggered'' @ '': false}'' @ [CHR 0x0A]
   \<and> CHR 0x0A \<notin> set (json_dumps (fst (log_access plain_env ''executive'' ''Any delays?''
       [RAW_FINANCIAL_DATA ! 7] ''Yes, 3 months'' empty_world)))
   \<and> json_field (fst (log_access plain_env ''executive'' ''Any delays?''
       [RAW_FINANCIAL_DATA ! 7] ''Yes, 3 months'' empty_world)) ''response_length''
       = Some (JInt 13)"
proof -
  have line: "json_dumps (fst (log_access plain_env ''executive'' ''Any delays?''
       [RAW_FINANCIAL_DATA ! 7] ''Yes, 3 months'' empty_world))
     = ''{'' @ quoted ''timestamp'' @ '': '' @ quoted ''2024-01-01T09:30:00.123456'' @ '', ''
         @ quoted ''user_role'' @ '': '' @ quoted ''executive'' @ '', ''
         @ quoted ''query'' @ '': '' @ quoted ''Any delays?'' @ '', ''
         @ quoted ''docs_sensitivity'' @ '': ['' @ quoted ''insider'' @ ''], ''
         @ quoted ''docs_sources'' @ '': ['' @ quoted ''Internal Memo'' @ ''], ''
         @ quoted ''response_length'' @ '': 13, ''
         @ quoted ''guardrail_triggered'' @ '': false}''"
    by (simp add: log_access_entry plain_env_def empty_world_def RAW_FINANCIAL_DATA_def
        mk_doc_def dict_get_def json_string_def json_escape_char_def quoted_def
        py_str_int_def nat_to_dec.simps dec_digit_def)
  have appended: "audit_file empty_world = []"
    by (simp add: empty_world_def)
  from log_access_record [of plain_env "''executive''" "''Any delays?''"
      "[RAW_FINANCIAL_DATA ! 7]" "''Yes, 3 months''" empty_world]
  show ?thesis unfolding line appended by simp
qed

section \<open>What reaches the interpreter\<close>

text \<open>
  C7. The snippet \<open>import os\<close>, \<open>result = os.getcwd()\<close> is no arithmetic expression.
  \<open>python_calculator\<close> leaves it as it is, hands it to \<open>exec\<close>, and returns under
  \<open>Calculated Result\<close> whatever the interpreter has bound to \<open>result\<close>: no grammar
  stands between the snippet and the interpreter.
\<close>

theorem python_calculator_unrestricted:
  "clean_code (''import os'' @ [CHR 0x0A] @ ''result = os.getcwd()'')
     = ''import os'' @ [CHR 0x0A] @ ''result = os.getcwd()''
   \<and> calls (snd (python_calculator e (''import os'' @ [CHR 0x0A] @ ''result = os.getcwd()'') w))
     = calls w @ [ExecCalled (''import os'' @ [CHR 0x0A] @ ''result = os.getcwd()'')]
   \<and> fst (python_calculator e (''import os'' @ [CHR 0x0A] @ ''result = os.getcwd()'') w)
     = (case py_exec e (''import os'' @ [CHR 0x0A] @ ''result = os.getcwd()'') of
          Raised msg \<Rightarrow> ''Calculation Error: '' @ msg
        | Returned local_scope \<Rightarrow>
            (case map_of local_scope ''result'' of
               Some v \<Rightarrow> ''Calculated Result: '' @ v
             | None \<Rightarrow> ''Error: Please assign your answer to a variable named 'result'.''))"
proof -
  have c: "clean_code (''import os'' @ [CHR 0x0A] @ ''result = os.getcwd()'')
     = ''import os'' @ [CHR 0x0A] @ ''result = os.getcwd()''"
    by (simp add: clean_code_def py_strip_def py_isspace_def in_range_def)
  show ?thesis
    unfolding python_calculator_def Let_def c
    by (simp split: exec_outcome.split option.split)
qed

section \<open>The path of a permitted role\<close>

text \<open>
  For contrast, the path of a permitted role, for a model whose reply passes the
  guardrail and carries no directive: one call to the index, one to the model, none
  to the interpreter, the reply returned, and one line appended to the audit log.
\<close>

lemma ask_valid_role_effects:
  assumes keys: "list_all (\<lambda>d. map_of (metadata d) ''sensitivity'' \<noteq> None
                 \<and> map_of (metadata d) ''source'' \<noteq> None) (vector_search e question 9)"
    and pass: "\<And>c prompt. fst (guardrail_check c (llm_invoke e prompt))"
    and plain: "\<And>prompt. \<not> py_contains ''```python'' (llm_invoke e prompt)"
    and role: "role \<in> {''analyst'', ''product_manager'', ''executive''}"
    and limit: "2 \<le> recursion_limit e"
  shows "\<exists>prompt entry.
           ask e question role w
             = (Inr (llm_invoke e prompt),
                w\<lparr>retrieved_docs := retrieve (vector_search e) question role 3,
                  calls := calls w @ [SearchCalled question 9, LlmInvoked prompt],
                  audit_file := audit_file w @ json_dumps entry @ [CHR 0x0A]\<rparr>)"
proof -
  define s where "s = \<lparr>messages = [HumanMessage question], user_role = role, context = [],
      guardrail_triggered = None\<rparr>"
  define docs where "docs = retrieve (vector_search e) question role 3"
  define w1 where "w1 = w\<lparr>retrieved_docs := docs, calls := calls w @ [SearchCalled question 9]\<rparr>"
  have "list_all (\<lambda>d. map_of (metadata d) ''sensitivity'' \<noteq> None
                 \<and> map_of (metadata d) ''source'' \<noteq> None) (vector_search e question (3 * 3))"
    using keys by simp
  from format_sources_keys [OF retrieve_keys
      [where search = "vector_search e" and query = question and k = 3 and role = role, OF this]]
  obtain parts where parts: "format_sources docs = Inr parts"
    unfolding docs_def by blast
  define s1 where "s1 = s\<lparr>context := py_join [CHR 0x0A, CHR 0x0A] parts\<rparr>"
  have r: "retrieve_node e s w = (Inr s1, w1)"
    unfolding retrieve_node_def Let_def s1_def w1_def
    using parts by (simp add: s_def docs_def)
  define p where "p = SystemMessage
     (if is_HumanMessage (last (messages s1))
         \<and> py_contains ''Calculated Result:'' (content (last (messages s1)))
      then ''You have the calculated data. Now answer the user's question concisely using the result.''
      else system_prompt_for (user_role s1) (context s1)) # messages s1"
  define reply where "reply = llm_invoke e p"
  obtain fr where fr: "guardrail_check (context s1) reply = (True, fr)"
    using pass [of "context s1" p] unfolding reply_def
    by (cases "guardrail_check (context s1) (llm_invoke e p)") auto
  have nd: "\<not> py_contains ''```python'' reply"
    unfolding reply_def by (rule plain)
  define entry where "entry = fst (log_access e role question docs reply
      (w1\<lparr>calls := calls w1 @ [LlmInvoked p]\<rparr>))"
  define w2 where "w2 = w\<lparr>retrieved_docs := docs,
      calls := calls w @ [SearchCalled question 9, LlmInvoked p],
      audit_file := audit_file w @ json_dumps entry @ [CHR 0x0A]\<rparr>"
  define s2 where "s2 = s1\<lparr>messages := messages s1 @ [AIMessage reply],
      guardrail_triggered := Some False\<rparr>"
  have ms1: "messages s1 = [HumanMessage question]" "user_role s1 = role"
    by (simp_all add: s1_def s_def)
  have lg: "snd (log_access e role question docs reply (w1\<lparr>calls := calls w1 @ [LlmInvoked p]\<rparr>))
      = w2"
    unfolding log_access_world entry_def [symmetric]
    by (simp add: w1_def w2_def)
  have g: "generate_node e s1 w1 = (Inr s2, w2)"
    unfolding generate_node_def Let_def p_def [symmetric] reply_def [symmetric]
    using fr nd ms1 lg by (simp add: s2_def w1_def)
  have sc: "should_continue s2 = Inr End_route"
    unfolding should_continue_def using nd ms1 by (simp add: s2_def)
  obtain n where n: "recursion_limit e = Suc (Suc n)"
    using limit by (metis Suc_le_D numeral_2_eq_2 Suc_le_mono)
  have run: "run_graph e (recursion_limit e) Retrieve s w = (Inr s2, w2)"
    unfolding n using r g sc by simp
  have "ask e question role w = (Inr reply, w2)"
    unfolding ask_def Let_def s_def [symmetric] run
    using role ms1 by (simp add: s2_def)
  then show ?thesis
    unfolding reply_def w2_def docs_def by blast
qed

lemma ask_plain_env_effects:
  "\<exists>prompt entry.
      ask plain_env ''test'' ''analyst'' empty_world
        = (Inr ''Revenue was $18 billion'',
           \<lparr>retrieved_docs = retrieve sample_search ''test'' ''analyst'' 3,
            audit_file = json_dumps entry @ [CHR 0x0A],
            calls = [SearchCalled ''test'' 9, LlmInvoked prompt]\<rparr>)"
proof -
  have keys: "list_all (\<lambda>d. map_of (metadata d) ''sensitivity'' \<noteq> None
                 \<and> map_of (metadata d) ''source'' \<noteq> None) (vector_search plain_env ''test'' 9)"
    using sample_search_keys by (simp add: plain_env_def)
  have pass: "\<And>c prompt. fst (guardrail_check c (llm_invoke plain_env prompt))"
    by (simp add: plain_env_def guardrail_check_def check_pii_revenue)
  have plain: "\<And>prompt. \<not> py_contains ''```python'' (llm_invoke plain_env prompt)"
    by (simp add: plain_env_def)
  have role: "''analyst'' \<in> {''analyst'', ''product_manager'', ''executive''}" by simp
  have limit: "2 \<le> recursion_limit plain_env" by (simp add: plain_env_def)
  from ask_valid_role_effects [OF keys pass plain role limit, of empty_world]
  show ?thesis by (simp add: plain_env_def empty_world_def)
qed

end
